theory Spec2Isabelle
  imports Complex_Main "HOL-Library.Sublist"
begin

section \<open>Data model (shared/schema.ts)\<close>

text \<open>
  Every table of \<^verbatim>\<open>shared/schema.ts\<close> that the server routes read or write is a record whose
  fields carry the column names, prefixed by a letter for the table because several tables
  share column names. A column declared without \<^verbatim>\<open>notNull()\<close> is an \<open>option\<close> (\<open>None\<close> is SQL
  NULL). \<^verbatim>\<open>serial\<close> and \<^verbatim>\<open>integer\<close> keys are \<open>nat\<close>, \<^verbatim>\<open>timestamp\<close> columns are a \<open>nat\<close> clock
  reading, \<^verbatim>\<open>decimal(10,2)\<close> columns are \<open>rat\<close>, and a \<^verbatim>\<open>jsonb\<close> column documented as an array
  of strings is a \<open>string list\<close>. Purely descriptive columns that no route inspects
  (description, phone, website, social links, coordinates, images, certifications and the
  like) are left out of the rows.
\<close>

type_synonym timestamp = nat
type_synonym decimal = rat

record User =
  u_id :: string
  u_email :: "string option"
  u_firstName :: "string option"
  u_lastName :: "string option"
  u_role :: string
  u_stripeCustomerId :: "string option"
  u_updatedAt :: "timestamp option"

record Business =
  b_id :: nat
  b_userId :: "string option"
  b_name :: string
  b_address :: string
  b_postcode :: string
  b_approved :: "bool option"
  b_claimed :: "bool option"
  b_manuallyAdded :: "bool option"
  b_subscriptionTier :: "string option"
  b_bookingEnabled :: "bool option"
  b_subscriptionExpiry :: "timestamp option"
  b_stripeSubscriptionId :: "string option"
  b_updatedAt :: "timestamp option"

record SessionType =
  st_id :: nat
  st_name :: string

record FitnessSession =
  s_id :: nat
  s_businessId :: nat
  s_sessionTypeId :: nat
  s_title :: string
  s_difficulty :: "string list"
  s_ageGroups :: "string list"
  s_gender :: string
  s_price :: decimal
  s_duration :: int
  s_maxParticipants :: int
  s_schedule :: "(int \<times> string \<times> string) list"
  s_approved :: "bool option"
  s_updatedAt :: "timestamp option"

record Booking =
  k_id :: nat
  k_userId :: string
  k_sessionId :: nat
  k_sessionDate :: timestamp
  k_status :: string
  k_paymentIntentId :: "string option"
  k_totalAmount :: decimal
  k_specialRequirements :: "string option"
  k_updatedAt :: "timestamp option"

record BusinessClaim =
  c_id :: nat
  c_businessId :: nat
  c_userId :: string
  c_claimMessage :: "string option"
  c_verificationDocuments :: "string list option"
  c_status :: "string option"
  c_adminNotes :: "string option"
  c_approvedAt :: "timestamp option"
  c_updatedAt :: "timestamp option"

record PersonalTrainer =
  t_id :: nat
  t_userId :: string
  t_firstName :: string
  t_lastName :: string
  t_bio :: "string option"
  t_specialties :: "string list"
  t_hourlyRate :: "decimal option"
  t_location :: "string option"
  t_email :: "string option"
  t_bookingEnabled :: "bool option"
  t_approved :: "bool option"
  t_updatedAt :: "timestamp option"

text \<open>
  The database: one list of rows per table, in storage order, and the next value of each
  \<^verbatim>\<open>serial\<close> sequence.
\<close>

record db =
  users :: "User list"
  businesses :: "Business list"
  sessionTypes :: "SessionType list"
  fitnessSessions :: "FitnessSession list"
  bookings :: "Booking list"
  businessClaims :: "BusinessClaim list"
  personalTrainers :: "PersonalTrainer list"
  businesses_seq :: nat
  fitnessSessions_seq :: nat
  bookings_seq :: nat
  businessClaims_seq :: nat

text \<open>Rows with their joined relations (the \<^verbatim>\<open>...WithUser\<close> and \<^verbatim>\<open>...WithDetails\<close> types).
  A left join that finds no partner yields \<open>None\<close>.\<close>

type_synonym BusinessWithUser = "Business \<times> User option"
type_synonym PersonalTrainerWithUser = "PersonalTrainer \<times> User option"

text \<open>An insert or update that the database refuses raises; the routes catch every
  exception and answer 500.\<close>

datatype db_error = ForeignKeyViolation | NumericOverflow

section \<open>Column and SQL operator semantics\<close>

text \<open>A column default applies when the insert leaves the column out (\<open>None\<close>); a supplied
  value, NULL included, is stored as supplied.\<close>

fun with_default :: "'a \<Rightarrow> 'a option \<Rightarrow> 'a" where
  "with_default d None = d"
| "with_default d (Some v) = v"

text \<open>\<^verbatim>\<open>decimal(10,2)\<close>: the value is rounded to two fraction digits, half away from zero,
  and refused when it no longer fits ten digits.\<close>

definition round_half_away :: "rat \<Rightarrow> int" where
  "round_half_away x = (if 0 \<le> x then \<lfloor>x + 1/2\<rfloor> else - \<lfloor>- x + 1/2\<rfloor>)"

definition numeric_10_2 :: "rat \<Rightarrow> db_error + decimal" where
  "numeric_10_2 x =
     (let r = of_int (round_half_away (x * 100)) / 100
      in if \<bar>r\<bar> < 100000000 then Inr r else Inl NumericOverflow)"

text \<open>JavaScript truthiness of an optional string (\<^verbatim>\<open>if (filters.postcode)\<close>) and of a
  nullable boolean.\<close>

fun truthy_string :: "string option \<Rightarrow> bool" where
  "truthy_string None = False"
| "truthy_string (Some s) = (s \<noteq> [])"

fun truthy_bool :: "bool option \<Rightarrow> bool" where
  "truthy_bool None = False"
| "truthy_bool (Some b) = b"

text \<open>SQL \<^verbatim>\<open>LIKE\<close>: in the pattern \<^verbatim>\<open>%\<close> stands for any run of characters, \<^verbatim>\<open>_\<close> for any
  one character, and a backslash makes the next pattern character literal. The first
  argument is the pattern.\<close>

definition pct :: char where "pct = CHR ''%''"
definition underscore :: char where "underscore = CHR ''_''"
definition backslash :: char where "backslash = CHR 0x5C"

fun like_match :: "string \<Rightarrow> string \<Rightarrow> bool" where
  "like_match [] s = (s = [])"
| "like_match (p # ps) s =
     (if p = pct then
        (like_match ps s \<or> (case s of [] \<Rightarrow> False | c # t \<Rightarrow> like_match (p # ps) t))
      else if p = underscore then
        (case s of [] \<Rightarrow> False | c # t \<Rightarrow> like_match ps t)
      else if p = backslash then
        (case ps of [] \<Rightarrow> False
         | q # qs \<Rightarrow> (case s of [] \<Rightarrow> False | c # t \<Rightarrow> c = q \<and> like_match qs t))
      else
        (case s of [] \<Rightarrow> False | c # t \<Rightarrow> c = p \<and> like_match ps t))"

text \<open>\<^verbatim>\<open>ILIKE\<close> is \<^verbatim>\<open>LIKE\<close> after folding the letters of both sides to lower case.\<close>

definition lower_char :: "char \<Rightarrow> char" where
  "lower_char c =
     (let n = (of_char c :: nat) in if 65 \<le> n \<and> n \<le> 90 then char_of (n + 32) else c)"

definition lower :: "string \<Rightarrow> string" where
  "lower s = map lower_char s"

definition ilike_match :: "string \<Rightarrow> string \<Rightarrow> bool" where
  "ilike_match p s = like_match (lower p) (lower s)"

text \<open>A comparison against a NULL column is not true, so the row is filtered out.\<close>

fun sql_like :: "string option \<Rightarrow> string \<Rightarrow> bool" where
  "sql_like None p = False"
| "sql_like (Some v) p = like_match p v"

fun sql_ilike :: "string option \<Rightarrow> string \<Rightarrow> bool" where
  "sql_ilike None p = False"
| "sql_ilike (Some v) p = ilike_match p v"

fun sql_lte :: "decimal option \<Rightarrow> decimal \<Rightarrow> bool" where
  "sql_lte None x = False"
| "sql_lte (Some v) x = (v \<le> x)"

section \<open>Trainer storage (class TrainerStorage)\<close>

definition getUser :: "db \<Rightarrow> string \<Rightarrow> User option" where
  "getUser d uid = find (\<lambda>u. u_id u = uid) (users d)"

record TrainerFilters =
  tf_search :: "string option"
  tf_specialty :: "string option"
  tf_location :: "string option"
  tf_maxRate :: "decimal option"
  tf_approved :: "bool option"

text \<open>The conditions pushed by \<^verbatim>\<open>searchPersonalTrainers\<close>, each guarded as in the source;
  \<^verbatim>\<open>and(...conditions)\<close> is their conjunction and an empty list leaves the query without
  a \<^verbatim>\<open>where\<close>.\<close>

definition trainer_conditions :: "TrainerFilters \<Rightarrow> (PersonalTrainer \<Rightarrow> bool) list" where
  "trainer_conditions filters =
     (if tf_approved filters \<noteq> Some False
      then [\<lambda>t. t_approved t = Some True] else []) @
     (if truthy_string (tf_search filters)
      then [\<lambda>t. ilike_match (pct # the (tf_search filters) @ [pct]) (t_firstName t)
               \<or> ilike_match (pct # the (tf_search filters) @ [pct]) (t_lastName t)
               \<or> sql_ilike (t_bio t) (pct # the (tf_search filters) @ [pct])] else []) @
     (if truthy_string (tf_specialty filters)
      then [\<lambda>t. the (tf_specialty filters) \<in> set (t_specialties t)] else []) @
     (if truthy_string (tf_location filters)
      then [\<lambda>t. sql_like (t_location t) (pct # the (tf_location filters) @ [pct])] else []) @
     (if tf_maxRate filters \<noteq> None \<and> tf_maxRate filters \<noteq> Some 0
      then [\<lambda>t. sql_lte (t_hourlyRate t) (the (tf_maxRate filters))] else [])"

definition searchPersonalTrainers :: "db \<Rightarrow> TrainerFilters \<Rightarrow> PersonalTrainerWithUser list" where
  "searchPersonalTrainers d filters =
     map (\<lambda>t. (t, getUser d (t_userId t)))
       (filter (\<lambda>t. list_all (\<lambda>cond. cond t) (trainer_conditions filters))
          (personalTrainers d))"

definition getPendingPersonalTrainers :: "db \<Rightarrow> PersonalTrainerWithUser list" where
  "getPendingPersonalTrainers d =
     searchPersonalTrainers d
       \<lparr>tf_search = None, tf_specialty = None, tf_location = None, tf_maxRate = None,
        tf_approved = Some False\<rparr>"

section \<open>Business storage (class DatabaseStorage)\<close>

text \<open>\<^verbatim>\<open>users.id\<close> is the primary key, so the left join on it finds at most one user; a
  business without \<^verbatim>\<open>userId\<close> joins with NULL.\<close>

definition joinUser :: "db \<Rightarrow> Business \<Rightarrow> User option" where
  "joinUser d b = (case b_userId b of None \<Rightarrow> None | Some uid \<Rightarrow> getUser d uid)"

text \<open>\<^verbatim>\<open>InsertBusiness\<close>, the type inferred from \<^verbatim>\<open>insertBusinessSchema\<close>: the schema omits only
  id, createdAt and updatedAt, so every status column can be given. An optional column is
  \<open>None\<close> when left out.\<close>

record InsertBusiness =
  ib_userId :: "string option"
  ib_name :: string
  ib_address :: string
  ib_postcode :: string
  ib_approved :: "bool option option"
  ib_claimed :: "bool option option"
  ib_manuallyAdded :: "bool option option"
  ib_subscriptionTier :: "string option option"
  ib_bookingEnabled :: "bool option option"
  ib_subscriptionExpiry :: "timestamp option option"
  ib_stripeSubscriptionId :: "string option option"

definition createBusiness :: "timestamp \<Rightarrow> db \<Rightarrow> InsertBusiness \<Rightarrow> db_error + (db \<times> Business)" where
  "createBusiness now d business =
     (if (case ib_userId business of None \<Rightarrow> False | Some uid \<Rightarrow> getUser d uid = None)
      then Inl ForeignKeyViolation
      else
        let newBusiness =
          \<lparr>b_id = businesses_seq d,
           b_userId = ib_userId business,
           b_name = ib_name business,
           b_address = ib_address business,
           b_postcode = ib_postcode business,
           b_approved = with_default (Some False) (ib_approved business),
           b_claimed = with_default (Some False) (ib_claimed business),
           b_manuallyAdded = with_default (Some False) (ib_manuallyAdded business),
           b_subscriptionTier = with_default (Some ''free'') (ib_subscriptionTier business),
           b_bookingEnabled = with_default (Some False) (ib_bookingEnabled business),
           b_subscriptionExpiry = with_default None (ib_subscriptionExpiry business),
           b_stripeSubscriptionId = with_default None (ib_stripeSubscriptionId business),
           b_updatedAt = Some now\<rparr>
        in Inr (d\<lparr>businesses := businesses d @ [newBusiness],
                  businesses_seq := Suc (businesses_seq d)\<rparr>, newBusiness))"

definition getBusinessesByUserId :: "db \<Rightarrow> string \<Rightarrow> BusinessWithUser list" where
  "getBusinessesByUserId d userId =
     map (\<lambda>b. (b, joinUser d b)) (filter (\<lambda>b. b_userId b = Some userId) (businesses d))"

definition getBusinessById :: "db \<Rightarrow> nat \<Rightarrow> BusinessWithUser option" where
  "getBusinessById d i =
     (case find (\<lambda>b. b_id b = i) (businesses d) of
        None \<Rightarrow> None
      | Some b \<Rightarrow> Some (b, joinUser d b))"

text \<open>An \<^verbatim>\<open>update ... where id = i returning\<close> rewrites every row with that id; the method
  returns the first rewritten row, \<open>None\<close> (undefined) when there is none.\<close>

definition updateBusinessApproval :: "timestamp \<Rightarrow> db \<Rightarrow> nat \<Rightarrow> bool \<Rightarrow> db \<times> Business option" where
  "updateBusinessApproval now d i approved =
     (let d' = d\<lparr>businesses :=
                 map (\<lambda>b. if b_id b = i
                          then b\<lparr>b_approved := Some approved, b_updatedAt := Some now\<rparr>
                          else b) (businesses d)\<rparr>
      in (d', find (\<lambda>b. b_id b = i) (businesses d')))"

record Subscription =
  sub_subscriptionTier :: string
  sub_bookingEnabled :: bool
  sub_subscriptionExpiry :: "timestamp option"
  sub_stripeSubscriptionId :: "string option"

definition updateBusinessSubscription ::
  "timestamp \<Rightarrow> db \<Rightarrow> nat \<Rightarrow> Subscription \<Rightarrow> db \<times> Business option" where
  "updateBusinessSubscription now d i subscription =
     (let d' = d\<lparr>businesses :=
                 map (\<lambda>b. if b_id b = i
                          then b\<lparr>b_subscriptionTier := Some (sub_subscriptionTier subscription),
                                 b_bookingEnabled := Some (sub_bookingEnabled subscription),
                                 b_subscriptionExpiry := sub_subscriptionExpiry subscription,
                                 b_stripeSubscriptionId := sub_stripeSubscriptionId subscription,
                                 b_updatedAt := Some now\<rparr>
                          else b) (businesses d)\<rparr>
      in (d', find (\<lambda>b. b_id b = i) (businesses d')))"

definition updateUserStripeCustomerId :: "timestamp \<Rightarrow> db \<Rightarrow> string \<Rightarrow> string \<Rightarrow> db" where
  "updateUserStripeCustomerId now d userId customerId =
     d\<lparr>users :=
         map (\<lambda>u. if u_id u = userId
                  then u\<lparr>u_stripeCustomerId := Some customerId, u_updatedAt := Some now\<rparr>
                  else u) (users d)\<rparr>"

section \<open>Business routes (registerRoutes)\<close>

text \<open>
  A route takes the clock reading, the database, the authenticated caller
  (\<^verbatim>\<open>req.user.claims.sub\<close>, supplied by the \<^verbatim>\<open>isAuthenticated\<close> middleware) and the request, and
  returns the database afterwards, the HTTP status and the row sent back, if any. Every
  exception is caught by the route and answered with 500. \<^verbatim>\<open>sendEmail\<close> catches its own
  failures and does not touch the database, so it only appears where building the
  message can raise.
\<close>

type_synonym 'a reply = "db \<times> nat \<times> 'a option"

text \<open>The JSON body of \<^verbatim>\<open>POST /api/businesses\<close>: a key that is absent is \<open>None\<close>.\<close>

record BusinessBody =
  bb_name :: "string option"
  bb_address :: "string option"
  bb_postcode :: "string option"
  bb_approved :: "bool option option"
  bb_claimed :: "bool option option"
  bb_manuallyAdded :: "bool option option"
  bb_subscriptionTier :: "string option option"
  bb_bookingEnabled :: "bool option option"
  bb_subscriptionExpiry :: "timestamp option option"
  bb_stripeSubscriptionId :: "string option option"

text \<open>\<^verbatim>\<open>insertBusinessSchema.parse({...req.body, userId})\<close>: the columns that are
  \<^verbatim>\<open>notNull\<close> without a default (name, address, postcode) are required, the caller's id
  replaces any \<^verbatim>\<open>userId\<close> of the body, everything else is copied. \<open>None\<close> is the ZodError.\<close>

definition insertBusinessSchema_parse :: "BusinessBody \<Rightarrow> string \<Rightarrow> InsertBusiness option" where
  "insertBusinessSchema_parse body userId =
     (case (bb_name body, bb_address body, bb_postcode body) of
        (Some n, Some a, Some p) \<Rightarrow>
          Some \<lparr>ib_userId = Some userId, ib_name = n, ib_address = a, ib_postcode = p,
                ib_approved = bb_approved body,
                ib_claimed = bb_claimed body,
                ib_manuallyAdded = bb_manuallyAdded body,
                ib_subscriptionTier = bb_subscriptionTier body,
                ib_bookingEnabled = bb_bookingEnabled body,
                ib_subscriptionExpiry = bb_subscriptionExpiry body,
                ib_stripeSubscriptionId = bb_stripeSubscriptionId body\<rparr>
      | _ \<Rightarrow> None)"

definition post_businesses :: "timestamp \<Rightarrow> db \<Rightarrow> string \<Rightarrow> BusinessBody \<Rightarrow> Business reply" where
  "post_businesses now d userId body =
     (case getUser d userId of
        None \<Rightarrow> (d, 404, None)
      | Some user \<Rightarrow>
          (case insertBusinessSchema_parse body userId of
             None \<Rightarrow> (d, 500, None)
           | Some businessData \<Rightarrow>
               (case createBusiness now d businessData of
                  Inl e \<Rightarrow> (d, 500, None)
                | Inr (d', business) \<Rightarrow> (d', 201, Some business))))"

text \<open>\<^verbatim>\<open>PUT /api/admin/businesses/:id/approve\<close>. The update is written before the owner's
  e-mail address is read; reading it from a business without a joined user raises, after
  the write.\<close>

definition put_admin_businesses_approve ::
  "timestamp \<Rightarrow> db \<Rightarrow> string \<Rightarrow> nat \<Rightarrow> bool \<Rightarrow> Business reply" where
  "put_admin_businesses_approve now d caller businessId approved =
     (if (case getUser d caller of None \<Rightarrow> True | Some user \<Rightarrow> u_role user \<noteq> ''admin'')
      then (d, 403, None)
      else
        (case updateBusinessApproval now d businessId approved of
           (d', business) \<Rightarrow>
             (case getBusinessById d' businessId of
                Some (b, None) \<Rightarrow> (d', 500, None)
              | _ \<Rightarrow> (d', 200, business))))"

text \<open>The process environment and the payment gateway. A gateway call that raises is
  \<open>None\<close>; \<^verbatim>\<open>subscriptions.create\<close> yields the subscription id and
  \<^verbatim>\<open>current_period_end\<close>.\<close>

record env =
  STRIPE_BASIC_PRICE_ID :: "string option"
  STRIPE_PREMIUM_PRICE_ID :: "string option"

record stripe =
  customers_create :: "string option"
  subscriptions_create :: "(string \<times> nat) option"

definition post_businesses_upgrade ::
  "env \<Rightarrow> stripe \<Rightarrow> timestamp \<Rightarrow> db \<Rightarrow> string \<Rightarrow> nat \<Rightarrow> string option \<Rightarrow> Business reply" where
  "post_businesses_upgrade e gw now d userId businessId subscriptionTier =
     (case getBusinessById d businessId of
        None \<Rightarrow> (d, 403, None)
      | Some (business, None) \<Rightarrow> (d, 500, None)
      | Some (business, Some owner) \<Rightarrow>
          if u_id owner \<noteq> userId then (d, 403, None)
          else if subscriptionTier = Some ''free'' then
            (case updateBusinessSubscription now d businessId
                    \<lparr>sub_subscriptionTier = ''free'', sub_bookingEnabled = False,
                     sub_subscriptionExpiry = None, sub_stripeSubscriptionId = None\<rparr> of
               (d', updatedBusiness) \<Rightarrow> (d', 200, updatedBusiness))
          else if subscriptionTier \<noteq> Some ''basic'' \<and> subscriptionTier \<noteq> Some ''premium''
          then (d, 400, None)
          else
            let priceId = (if subscriptionTier = Some ''basic''
                           then with_default [] (STRIPE_BASIC_PRICE_ID e)
                           else with_default [] (STRIPE_PREMIUM_PRICE_ID e))
            in if priceId = [] then (d, 500, None)
               else
                 let user = getUser d userId;
                     customerId = (case user of None \<Rightarrow> None | Some u \<Rightarrow> u_stripeCustomerId u);
                     created = (if truthy_string customerId then Some d
                                else (case customers_create gw of
                                        None \<Rightarrow> None
                                      | Some cid \<Rightarrow>
                                          Some (updateUserStripeCustomerId now d userId cid)))
                 in (case created of
                       None \<Rightarrow> (d, 500, None)
                     | Some d1 \<Rightarrow>
                         (case subscriptions_create gw of
                            None \<Rightarrow> (d1, 500, None)
                          | Some (subscriptionId, current_period_end) \<Rightarrow>
                              (case updateBusinessSubscription now d1 businessId
                                      \<lparr>sub_subscriptionTier = the subscriptionTier,
                                       sub_bookingEnabled = True,
                                       sub_subscriptionExpiry = Some (current_period_end * 1000),
                                       sub_stripeSubscriptionId = Some subscriptionId\<rparr> of
                                 (d', updatedBusiness) \<Rightarrow> (d', 200, updatedBusiness)))))"

text \<open>The operations on businesses, as requests arriving one after the other.\<close>

datatype operation =
  Register timestamp string BusinessBody
| Approve timestamp string nat bool
| Upgrade stripe timestamp string nat "string option"

fun step :: "env \<Rightarrow> db \<Rightarrow> operation \<Rightarrow> db" where
  "step e d (Register now userId body) = fst (post_businesses now d userId body)"
| "step e d (Approve now caller businessId approved) =
     fst (put_admin_businesses_approve now d caller businessId approved)"
| "step e d (Upgrade gw now userId businessId tier) =
     fst (post_businesses_upgrade e gw now d userId businessId tier)"

fun run :: "env \<Rightarrow> db \<Rightarrow> operation list \<Rightarrow> db" where
  "run e d [] = d"
| "run e d (x # xs) = run e (step e d x) xs"

section \<open>Sessions: storage and routes\<close>

text \<open>\<^verbatim>\<open>insertFitnessSessionSchema\<close> omits id, createdAt and updatedAt and replaces the price by
  \<^verbatim>\<open>z.number().min(0)\<close>; \<^verbatim>\<open>gender\<close> and \<^verbatim>\<open>approved\<close> have column defaults and are optional.\<close>

record InsertFitnessSession =
  is_businessId :: nat
  is_sessionTypeId :: nat
  is_title :: string
  is_difficulty :: "string list"
  is_ageGroups :: "string list"
  is_gender :: "string option"
  is_price :: rat
  is_duration :: int
  is_maxParticipants :: int
  is_schedule :: "(int \<times> string \<times> string) list"
  is_approved :: "bool option option"

record SessionBody =
  sb_businessId :: "nat option"
  sb_sessionTypeId :: "nat option"
  sb_title :: "string option"
  sb_difficulty :: "string list option"
  sb_ageGroups :: "string list option"
  sb_gender :: "string option"
  sb_price :: "rat option"
  sb_duration :: "int option"
  sb_maxParticipants :: "int option"
  sb_schedule :: "(int \<times> string \<times> string) list option"
  sb_approved :: "bool option option"

definition insertFitnessSessionSchema_parse :: "SessionBody \<Rightarrow> InsertFitnessSession option" where
  "insertFitnessSessionSchema_parse body =
     (case (sb_businessId body, sb_sessionTypeId body, sb_title body, sb_difficulty body,
            sb_ageGroups body, sb_price body, sb_duration body, sb_maxParticipants body,
            sb_schedule body) of
        (Some bid, Some tid, Some title, Some difficulty, Some ageGroups, Some price,
         Some duration, Some maxParticipants, Some schedule) \<Rightarrow>
          if 0 \<le> price
          then Some \<lparr>is_businessId = bid, is_sessionTypeId = tid, is_title = title,
                     is_difficulty = difficulty, is_ageGroups = ageGroups,
                     is_gender = sb_gender body, is_price = price, is_duration = duration,
                     is_maxParticipants = maxParticipants, is_schedule = schedule,
                     is_approved = sb_approved body\<rparr>
          else None
      | _ \<Rightarrow> None)"



definition createFitnessSession ::
  "timestamp \<Rightarrow> db \<Rightarrow> InsertFitnessSession \<Rightarrow> db_error + (db \<times> FitnessSession)" where
  "createFitnessSession now d session =
     (if find (\<lambda>b. b_id b = is_businessId session) (businesses d) = None
         \<or> find (\<lambda>t. st_id t = is_sessionTypeId session) (sessionTypes d) = None
      then Inl ForeignKeyViolation
      else
        (case numeric_10_2 (is_price session) of
           Inl e \<Rightarrow> Inl e
         | Inr price \<Rightarrow>
             let newSession =
               \<lparr>s_id = fitnessSessions_seq d,
                s_businessId = is_businessId session,
                s_sessionTypeId = is_sessionTypeId session,
                s_title = is_title session,
                s_difficulty = is_difficulty session,
                s_ageGroups = is_ageGroups session,
                s_gender = with_default ''mixed'' (is_gender session),
                s_price = price,
                s_duration = is_duration session,
                s_maxParticipants = is_maxParticipants session,
                s_schedule = is_schedule session,
                s_approved = with_default (Some False) (is_approved session),
                s_updatedAt = Some now\<rparr>
             in Inr (d\<lparr>fitnessSessions := fitnessSessions d @ [newSession],
                       fitnessSessions_seq := Suc (fitnessSessions_seq d)\<rparr>, newSession)))"





text \<open>\<^verbatim>\<open>POST /api/sessions\<close>. The guard reads \<^verbatim>\<open>getBusinessesByUserId\<close>, which selects on the
  owner only; its 403 message is "No approved business found".\<close>

definition post_sessions :: "timestamp \<Rightarrow> db \<Rightarrow> string \<Rightarrow> SessionBody \<Rightarrow> FitnessSession reply" where
  "post_sessions now d userId body =
     (if length (getBusinessesByUserId d userId) = 0 then (d, 403, None)
      else
        (case insertFitnessSessionSchema_parse body of
           None \<Rightarrow> (d, 500, None)
         | Some sessionData \<Rightarrow>
             (case createFitnessSession now d sessionData of
                Inl e \<Rightarrow> (d, 500, None)
              | Inr (d', session) \<Rightarrow> (d', 201, Some session))))"

section \<open>Bookings: storage and routes\<close>


record BookingBody =
  kb_sessionId :: "nat option"
  kb_sessionDate :: "timestamp option"
  kb_status :: "string option"
  kb_paymentIntentId :: "string option"
  kb_totalAmount :: "rat option"
  kb_specialRequirements :: "string option"



definition updateBookingStatus :: "timestamp \<Rightarrow> db \<Rightarrow> nat \<Rightarrow> string \<Rightarrow> db \<times> Booking option" where
  "updateBookingStatus now d i status =
     (let d' = d\<lparr>bookings :=
                 map (\<lambda>k. if k_id k = i
                          then k\<lparr>k_status := status, k_updatedAt := Some now\<rparr>
                          else k) (bookings d)\<rparr>
      in (d', find (\<lambda>k. k_id k = i) (bookings d')))"


section \<open>Business claims: storage and routes\<close>

record InsertBusinessClaim =
  ic_businessId :: nat
  ic_userId :: string
  ic_claimMessage :: "string option"
  ic_verificationDocuments :: "string list option"
  ic_status :: "string option option"
  ic_adminNotes :: "string option"

text \<open>The list of claimable businesses selects on \<^verbatim>\<open>claimed = false\<close> and
  \<^verbatim>\<open>manuallyAdded = true\<close>. A business without a user is paired with a blank placeholder
  user (which has no role: the empty string here).\<close>

definition getUnclaimedBusinesses :: "timestamp \<Rightarrow> db \<Rightarrow> (Business \<times> User) list" where
  "getUnclaimedBusinesses now d =
     map (\<lambda>b. (b, with_default
                    \<lparr>u_id = [], u_email = Some [], u_firstName = Some [], u_lastName = Some [],
                     u_role = [], u_stripeCustomerId = None, u_updatedAt = Some now\<rparr>
                    (joinUser d b)))
       (filter (\<lambda>b. b_claimed b = Some False \<and> b_manuallyAdded b = Some True) (businesses d))"

definition createBusinessClaim ::
  "timestamp \<Rightarrow> db \<Rightarrow> InsertBusinessClaim \<Rightarrow> db_error + (db \<times> BusinessClaim)" where
  "createBusinessClaim now d claim =
     (if find (\<lambda>b. b_id b = ic_businessId claim) (businesses d) = None
         \<or> getUser d (ic_userId claim) = None
      then Inl ForeignKeyViolation
      else
        let businessClaim =
          \<lparr>c_id = businessClaims_seq d,
           c_businessId = ic_businessId claim,
           c_userId = ic_userId claim,
           c_claimMessage = ic_claimMessage claim,
           c_verificationDocuments = ic_verificationDocuments claim,
           c_status = with_default (Some ''pending'') (ic_status claim),
           c_adminNotes = ic_adminNotes claim,
           c_approvedAt = None,
           c_updatedAt = Some now\<rparr>
        in Inr (d\<lparr>businessClaims := businessClaims d @ [businessClaim],
                  businessClaims_seq := Suc (businessClaims_seq d)\<rparr>, businessClaim))"

definition updateBusinessClaimStatus ::
  "timestamp \<Rightarrow> db \<Rightarrow> nat \<Rightarrow> string \<Rightarrow> db \<times> BusinessClaim option" where
  "updateBusinessClaimStatus now d i status =
     (let d' = d\<lparr>businessClaims :=
                 map (\<lambda>c. if c_id c = i
                          then c\<lparr>c_status := Some status, c_updatedAt := Some now\<rparr>
                          else c) (businessClaims d)\<rparr>
      in (d', find (\<lambda>c. c_id c = i) (businessClaims d')))"

record ClaimBody =
  cb_claimMessage :: "string option"
  cb_verificationDocuments :: "string list option"

text \<open>\<^verbatim>\<open>POST /api/businesses/:id/claim\<close>. The guard is
  \<^verbatim>\<open>business.claimed || business.userId\<close>; \<^verbatim>\<open>verificationDocuments || []\<close> replaces a missing
  list by the empty one.\<close>

definition post_businesses_claim ::
  "timestamp \<Rightarrow> db \<Rightarrow> string \<Rightarrow> nat \<Rightarrow> ClaimBody \<Rightarrow> BusinessClaim reply" where
  "post_businesses_claim now d userId businessId body =
     (case getBusinessById d businessId of
        None \<Rightarrow> (d, 404, None)
      | Some (business, owner) \<Rightarrow>
          if truthy_bool (b_claimed business) \<or> truthy_string (b_userId business)
          then (d, 400, None)
          else
            (case createBusinessClaim now d
                    \<lparr>ic_businessId = businessId, ic_userId = userId,
                     ic_claimMessage = cb_claimMessage body,
                     ic_verificationDocuments =
                       Some (with_default [] (cb_verificationDocuments body)),
                     ic_status = Some (Some ''pending''),
                     ic_adminNotes = None\<rparr> of
               Inl e \<Rightarrow> (d, 500, None)
             | Inr (d', claim) \<Rightarrow> (d', 201, Some claim)))"

section \<open>Predicates used by the theorems\<close>

text \<open>A business whose booking flag is set is on a paid tier.\<close>

definition paid_when_enabled :: "Business \<Rightarrow> bool" where
  "paid_when_enabled b =
     (b_bookingEnabled b = Some True \<longrightarrow>
        b_subscriptionTier b = Some ''basic'' \<or> b_subscriptionTier b = Some ''premium'')"

text \<open>A registration that leaves the subscription columns to their defaults; the other
  operations are unrestricted.\<close>

fun plain_registration :: "operation \<Rightarrow> bool" where
  "plain_registration (Register now userId body) =
     (bb_subscriptionTier body = None \<and> bb_bookingEnabled body = None)"
| "plain_registration _ = True"


text \<open>The status columns of a business: approved, claimed, manuallyAdded, subscriptionTier,
  bookingEnabled.\<close>

definition business_flags ::
  "Business \<Rightarrow> bool option \<times> bool option \<times> bool option \<times> string option \<times> bool option" where
  "business_flags b =
     (b_approved b, b_claimed b, b_manuallyAdded b, b_subscriptionTier b, b_bookingEnabled b)"




section \<open>Concrete data\<close>

text \<open>Users, businesses and sessions after \<^verbatim>\<open>scripts/seed-data.js\<close>, and requests against
  them.\<close>

definition sarah :: User where
  "sarah = \<lparr>u_id = ''user_1'', u_email = Some ''sarah.coach@example.com'',
            u_firstName = Some ''Sarah'', u_lastName = Some ''Johnson'', u_role = ''business'',
            u_stripeCustomerId = None, u_updatedAt = None\<rparr>"

definition admin :: User where
  "admin = \<lparr>u_id = ''admin_1'', u_email = Some ''admin@myles.co.uk'',
            u_firstName = Some ''Admin'', u_lastName = Some ''User'', u_role = ''admin'',
            u_stripeCustomerId = None, u_updatedAt = None\<rparr>"

definition db_users :: db where
  "db_users = \<lparr>users = [sarah, admin], businesses = [], sessionTypes = [],
       fitnessSessions = [], bookings = [], businessClaims = [], personalTrainers = [],
       businesses_seq = 1, fitnessSessions_seq = 1, bookings_seq = 1, businessClaims_seq = 1\<rparr>"

definition fitlife :: BusinessBody where
  "fitlife = \<lparr>bb_name = Some ''FitLife Studio'', bb_address = Some ''45 High Street'',
       bb_postcode = Some ''SW1A 1AA'', bb_approved = None, bb_claimed = None,
       bb_manuallyAdded = None, bb_subscriptionTier = None, bb_bookingEnabled = None,
       bb_subscriptionExpiry = None, bb_stripeSubscriptionId = None\<rparr>"

definition env_priced :: env where
  "env_priced = \<lparr>STRIPE_BASIC_PRICE_ID = Some ''price_basic'',
                  STRIPE_PREMIUM_PRICE_ID = Some ''price_premium''\<rparr>"

definition gateway_ok :: stripe where
  "gateway_ok = \<lparr>customers_create = Some ''cus_1'',
                  subscriptions_create = Some (''sub_1'', 1750000000)\<rparr>"

definition mike :: User where
  "mike = \<lparr>u_id = ''user_2'', u_email = Some ''mike.trainer@example.com'',
            u_firstName = Some ''Mike'', u_lastName = Some ''Thompson'', u_role = ''business'',
            u_stripeCustomerId = None, u_updatedAt = None\<rparr>"

definition yoga :: SessionType where
  "yoga = \<lparr>st_id = 1, st_name = ''Yoga''\<rparr>"

definition studio :: Business where
  "studio = \<lparr>b_id = 1, b_userId = Some ''user_1'', b_name = ''FitLife Studio'',
       b_address = ''45 High Street'', b_postcode = ''SW1A 1AA'', b_approved = Some False,
       b_claimed = Some False, b_manuallyAdded = Some False, b_subscriptionTier = Some ''free'',
       b_bookingEnabled = Some False, b_subscriptionExpiry = None,
       b_stripeSubscriptionId = None, b_updatedAt = Some 1\<rparr>"

definition gym :: Business where
  "gym = \<lparr>b_id = 2, b_userId = Some ''user_2'', b_name = ''Iron Temple Gym'',
       b_address = ''123 Brick Lane'', b_postcode = ''E1 6SB'', b_approved = Some True,
       b_claimed = Some False, b_manuallyAdded = Some False,
       b_subscriptionTier = Some ''basic'', b_bookingEnabled = Some True,
       b_subscriptionExpiry = Some 1750000000000, b_stripeSubscriptionId = Some ''sub_1'',
       b_updatedAt = Some 2\<rparr>"

definition flow :: FitnessSession where
  "flow = \<lparr>s_id = 1, s_businessId = 1, s_sessionTypeId = 1, s_title = ''Morning Yoga Flow'',
       s_difficulty = [''beginner'', ''intermediate''], s_ageGroups = [''all_ages''],
       s_gender = ''mixed'', s_price = 20, s_duration = 60, s_maxParticipants = 15,
       s_schedule = [(1, ''07:00'', ''08:00'')], s_approved = Some False,
       s_updatedAt = Some 3\<rparr>"

definition power :: FitnessSession where
  "power = \<lparr>s_id = 2, s_businessId = 2, s_sessionTypeId = 1, s_title = ''Power Yoga'',
       s_difficulty = [''advanced''], s_ageGroups = [''18-25'', ''26-35''],
       s_gender = ''mixed'', s_price = 20, s_duration = 45, s_maxParticipants = 10,
       s_schedule = [(3, ''18:00'', ''18:45'')], s_approved = Some True,
       s_updatedAt = Some 4\<rparr>"

definition db_market :: db where
  "db_market = \<lparr>users = [sarah, mike, admin], businesses = [studio, gym],
       sessionTypes = [yoga], fitnessSessions = [flow, power], bookings = [],
       businessClaims = [], personalTrainers = [],
       businesses_seq = 3, fitnessSessions_seq = 3, bookings_seq = 1,
       businessClaims_seq = 1\<rparr>"

definition booking_body :: "nat \<Rightarrow> rat \<Rightarrow> BookingBody" where
  "booking_body sessionId amount =
     \<lparr>kb_sessionId = Some sessionId, kb_sessionDate = Some 1751000000, kb_status = None,
      kb_paymentIntentId = None, kb_totalAmount = Some amount,
      kb_specialRequirements = None\<rparr>"

definition booked :: "nat \<Rightarrow> rat \<Rightarrow> Booking" where
  "booked sessionId amount =
     \<lparr>k_id = 1, k_userId = ''user_2'', k_sessionId = sessionId, k_sessionDate = 1751000000,
      k_status = ''confirmed'', k_paymentIntentId = None, k_totalAmount = amount,
      k_specialRequirements = None, k_updatedAt = Some 9\<rparr>"

definition listed :: Business where
  "listed = \<lparr>b_id = 1, b_userId = None, b_name = ''Corner Boxing Club'',
       b_address = ''9 Mill Lane'', b_postcode = ''NW1 4SH'', b_approved = Some True,
       b_claimed = Some False, b_manuallyAdded = Some True, b_subscriptionTier = Some ''free'',
       b_bookingEnabled = Some False, b_subscriptionExpiry = None,
       b_stripeSubscriptionId = None, b_updatedAt = Some 1\<rparr>"

definition claim_body :: ClaimBody where
  "claim_body = \<lparr>cb_claimMessage = Some ''I run this club'', cb_verificationDocuments = None\<rparr>"

definition pending_claim :: BusinessClaim where
  "pending_claim = \<lparr>c_id = 1, c_businessId = 1, c_userId = ''user_1'',
       c_claimMessage = Some ''I run this club'', c_verificationDocuments = Some [],
       c_status = Some ''pending'', c_adminNotes = None, c_approvedAt = None,
       c_updatedAt = Some 7\<rparr>"

definition db_directory :: "Business \<Rightarrow> BusinessClaim list \<Rightarrow> db" where
  "db_directory b cs = \<lparr>users = [sarah, admin], businesses = [b], sessionTypes = [],
       fitnessSessions = [], bookings = [], businessClaims = cs, personalTrainers = [],
       businesses_seq = 2, fitnessSessions_seq = 1, bookings_seq = 1,
       businessClaims_seq = Suc (length cs)\<rparr>"

definition session_body :: "nat \<Rightarrow> SessionBody" where
  "session_body businessId =
     \<lparr>sb_businessId = Some businessId, sb_sessionTypeId = Some 1,
      sb_title = Some ''Sunrise Yoga'', sb_difficulty = Some [''all_levels''],
      sb_ageGroups = Some [''all_ages''], sb_gender = None, sb_price = Some 20,
      sb_duration = Some 60, sb_maxParticipants = Some 12,
      sb_schedule = Some [(6, ''06:30'', ''07:30'')], sb_approved = None\<rparr>"

definition db_booked :: db where
  "db_booked = db_market\<lparr>bookings := [(booked 2 22)\<lparr>k_status := ''cancelled''\<rparr>],
                         bookings_seq := 2\<rparr>"



section \<open>Theorems\<close>

subsection \<open>Evaluation and helper lemmas\<close>

lemmas fixtures = sarah_def admin_def db_users_def fitlife_def env_priced_def gateway_ok_def

lemmas business_route_defs = post_businesses_def insertBusinessSchema_parse_def createBusiness_def
  getUser_def put_admin_businesses_approve_def updateBusinessApproval_def getBusinessById_def
  joinUser_def post_businesses_upgrade_def updateBusinessSubscription_def
  updateUserStripeCustomerId_def

lemmas market = sarah_def mike_def admin_def yoga_def studio_def gym_def flow_def power_def
  db_market_def booking_body_def

lemma numeric_10_2_values:
  "numeric_10_2 1 = Inr 1" "numeric_10_2 20 = Inr 20" "numeric_10_2 22 = Inr 22"
  by code_simp+


lemmas directory = sarah_def admin_def listed_def claim_body_def pending_claim_def
  db_directory_def

lemmas claim_route_defs = post_businesses_claim_def getBusinessById_def joinUser_def
  getUser_def createBusinessClaim_def getUnclaimedBusinesses_def updateBusinessClaimStatus_def

lemmas session_route_defs = post_sessions_def getBusinessesByUserId_def joinUser_def
  getUser_def insertFitnessSessionSchema_parse_def createFitnessSession_def numeric_10_2_values



subsection \<open>Business lifecycle\<close>

lemma approve_businesses:
  "list_all paid_when_enabled (businesses d) \<Longrightarrow>
   list_all paid_when_enabled (businesses (fst (put_admin_businesses_approve now d c i a)))"
  by (auto simp: put_admin_businesses_approve_def updateBusinessApproval_def Let_def list_all_iff
      paid_when_enabled_def split: option.splits prod.splits)

lemma register_businesses:
  "list_all paid_when_enabled (businesses d) \<Longrightarrow>
   bb_subscriptionTier body = None \<Longrightarrow> bb_bookingEnabled body = None \<Longrightarrow>
   list_all paid_when_enabled (businesses (fst (post_businesses now d u body)))"
  by (auto simp: post_businesses_def createBusiness_def insertBusinessSchema_parse_def Let_def
      list_all_iff paid_when_enabled_def split: option.splits prod.splits sum.splits if_splits)

lemma sub_businesses:
  "list_all paid_when_enabled (businesses d) \<Longrightarrow>
   (sub_bookingEnabled s \<longrightarrow>
      sub_subscriptionTier s = ''basic'' \<or> sub_subscriptionTier s = ''premium'') \<Longrightarrow>
   list_all paid_when_enabled (businesses (fst (updateBusinessSubscription now d i s)))"
  by (auto simp: updateBusinessSubscription_def Let_def list_all_iff paid_when_enabled_def)

lemma cust_businesses: "businesses (updateUserStripeCustomerId now d u c) = businesses d"
  by (simp add: updateUserStripeCustomerId_def)

lemma upgrade_businesses:
  assumes "list_all paid_when_enabled (businesses d)"
  shows "list_all paid_when_enabled (businesses (fst (post_businesses_upgrade e gw now d u i t)))"
proof -
  have sub: "\<And>d1 s. businesses d1 = businesses d \<Longrightarrow>
      (sub_bookingEnabled s \<longrightarrow>
         sub_subscriptionTier s = ''basic'' \<or> sub_subscriptionTier s = ''premium'') \<Longrightarrow>
      list_all paid_when_enabled (businesses (fst (updateBusinessSubscription now d1 i s)))"
    using assms by (intro sub_businesses) simp_all
  show ?thesis
    using assms
    by (simp add: post_businesses_upgrade_def Let_def case_prod_beta cust_businesses sub
        split: option.split)
qed



lemma approve_keeps_bookingEnabled:
  "map b_bookingEnabled (businesses (fst (put_admin_businesses_approve now d caller i a)))
     = map b_bookingEnabled (businesses d)"
  by (simp add: put_admin_businesses_approve_def updateBusinessApproval_def Let_def comp_def
      split: option.split prod.split)

lemma step_paid:
  "list_all paid_when_enabled (businesses d) \<Longrightarrow> plain_registration x \<Longrightarrow>
   list_all paid_when_enabled (businesses (step e d x))"
  by (cases x) (simp_all add: register_businesses approve_businesses upgrade_businesses)


text \<open>
  C3 (amended). From any database in which every booking-enabled business is on the basic
  or premium tier, registrations that leave \<^verbatim>\<open>subscriptionTier\<close> and \<^verbatim>\<open>bookingEnabled\<close> to the
  column defaults, admin approvals and unapprovals, and subscription upgrades and downgrades
  only reach databases with the same property: \<open>bookingEnabled = true\<close> implies a tier other
  than free. Approval is independent of it: the approval route leaves every
  \<^verbatim>\<open>bookingEnabled\<close> as it was.
\<close>

theorem bookingEnabled_only_on_paid_tier:
  "list_all paid_when_enabled (businesses d) \<Longrightarrow> list_all plain_registration ops \<Longrightarrow>
   list_all paid_when_enabled (businesses (run e d ops))
   \<and> map b_bookingEnabled (businesses (fst (put_admin_businesses_approve now d caller i a)))
       = map b_bookingEnabled (businesses d)"
proof (induction ops arbitrary: d)
  case Nil
  then show ?case by (simp add: approve_keeps_bookingEnabled)
next
  case (Cons x xs)
  then show ?case by (simp add: step_paid approve_keeps_bookingEnabled)
qed

theorem bookingEnabled_only_on_paid_tier_witness:
  "list_all paid_when_enabled (businesses (run env_priced db_users
      [Register 1 ''user_1'' fitlife, Upgrade gateway_ok 2 ''user_1'' 1 (Some ''basic'')]))
   \<and> map b_bookingEnabled (businesses (fst (put_admin_businesses_approve 3
         (run env_priced db_users
            [Register 1 ''user_1'' fitlife, Upgrade gateway_ok 2 ''user_1'' 1 (Some ''basic'')])
         ''admin_1'' 1 False))) = [Some True]"
  using bookingEnabled_only_on_paid_tier [of db_users
      "[Register 1 ''user_1'' fitlife, Upgrade gateway_ok 2 ''user_1'' 1 (Some ''basic'')]"
      env_priced]
  by (simp add: fixtures business_route_defs Let_def)

text \<open>
  C3 as stated fails: upgrading a business that was never approved sets
  \<open>bookingEnabled = true\<close> while \<open>approved = false\<close>, and revoking an approval leaves
  \<open>bookingEnabled = true\<close> standing.
\<close>

theorem bookingEnabled_without_approval:
  "map business_flags (businesses (run env_priced db_users
      [Register 1 ''user_1'' fitlife, Upgrade gateway_ok 2 ''user_1'' 1 (Some ''basic'')]))
     = [(Some False, Some False, Some False, Some ''basic'', Some True)]
   \<and> map business_flags (businesses (run env_priced db_users
      [Register 1 ''user_1'' fitlife, Approve 2 ''admin_1'' 1 True,
       Upgrade gateway_ok 3 ''user_1'' 1 (Some ''premium''), Approve 4 ''admin_1'' 1 False]))
     = [(Some False, Some False, Some False, Some ''premium'', Some True)]"
  by (simp add: fixtures business_route_defs business_flags_def Let_def)

subsection \<open>Business registration\<close>




subsection \<open>Booking creation\<close>














lemma updated_booking_found:
  "k \<in> set (bookings d) \<Longrightarrow> k_id k = i \<Longrightarrow>
     snd (updateBookingStatus now d i status) \<noteq> None"
  by (auto simp: updateBookingStatus_def Let_def find_None_iff)

text \<open>
  C9 (amended). \<^verbatim>\<open>updateBookingStatus\<close> writes the requested status into the booking with the
  given id and returns the row, whatever the booking's current status and whatever string
  is requested; no transition is refused.
\<close>

theorem updateBookingStatus_sets_any_status:
  "k \<in> set (bookings d) \<Longrightarrow> k_id k = i \<Longrightarrow>
     k\<lparr>k_status := status, k_updatedAt := Some now\<rparr>
       \<in> set (bookings (fst (updateBookingStatus now d i status)))
     \<and> snd (updateBookingStatus now d i status) \<noteq> None"
  using updated_booking_found [of k d i now status]
  by (auto simp: updateBookingStatus_def Let_def)

theorem updateBookingStatus_sets_any_status_witness:
  "(booked 2 22)\<lparr>k_status := ''confirmed'', k_updatedAt := Some 10\<rparr>
       \<in> set (bookings (fst (updateBookingStatus 10 db_booked 1 ''confirmed'')))
   \<and> snd (updateBookingStatus 10 db_booked 1 ''confirmed'') \<noteq> None"
proof -
  have m: "(booked 2 22)\<lparr>k_status := ''cancelled''\<rparr> \<in> set (bookings db_booked)"
    by (simp add: db_booked_def)
  have i: "k_id ((booked 2 22)\<lparr>k_status := ''cancelled''\<rparr>) = 1"
    by (simp add: booked_def)
  show ?thesis
    using updateBookingStatus_sets_any_status [OF m i, where status = "''confirmed''" and now = 10] by simp
qed

text \<open>
  C9 as stated fails: a cancelled booking is set back to confirmed, and a status outside
  the three documented values is stored as well.
\<close>

theorem cancelled_booking_confirmed_again:
  "map k_status (bookings db_booked) = [''cancelled'']
   \<and> map k_status (bookings (fst (updateBookingStatus 10 db_booked 1 ''confirmed'')))
       = [''confirmed'']
   \<and> map k_status (bookings (fst (updateBookingStatus 10 db_booked 1 ''refunded'')))
       = [''refunded'']"
  by (simp add: db_booked_def booked_def updateBookingStatus_def Let_def)

subsection \<open>Business claims\<close>

text \<open>
  C6. The claim route checks \<^verbatim>\<open>claimed\<close> and \<^verbatim>\<open>userId\<close> only. A business that nobody owns and
  that is not flagged \<^verbatim>\<open>manuallyAdded\<close> is absent from \<^verbatim>\<open>getUnclaimedBusinesses\<close>, which
  selects on \<^verbatim>\<open>manuallyAdded = true\<close>, and a claim on it is nevertheless created with
  status 201.
\<close>

theorem claim_accepted_for_business_not_manually_added:
  "business_flags (listed\<lparr>b_manuallyAdded := Some False\<rparr>)
      = (Some True, Some False, Some False, Some ''free'', Some False)
   \<and> getUnclaimedBusinesses 7 (db_directory (listed\<lparr>b_manuallyAdded := Some False\<rparr>) []) = []
   \<and> post_businesses_claim 7 (db_directory (listed\<lparr>b_manuallyAdded := Some False\<rparr>) [])
         ''user_1'' 1 claim_body
       = (db_directory (listed\<lparr>b_manuallyAdded := Some False\<rparr>) [pending_claim], 201,
          Some pending_claim)"
  by (simp add: directory claim_route_defs business_flags_def Let_def)

text \<open>
  C7 (amended). \<^verbatim>\<open>updateBusinessClaimStatus\<close>, the only operation that decides a claim,
  writes the status of the claim with the given id and nothing else: the businesses are
  unchanged and no \<^verbatim>\<open>approvedAt\<close> is stamped.
\<close>

theorem updateBusinessClaimStatus_sets_status_only:
  "businesses (fst (updateBusinessClaimStatus now d i status)) = businesses d
   \<and> map c_approvedAt (businessClaims (fst (updateBusinessClaimStatus now d i status)))
       = map c_approvedAt (businessClaims d)
   \<and> map c_status (businessClaims (fst (updateBusinessClaimStatus now d i status)))
       = map (\<lambda>c. if c_id c = i then Some status else c_status c) (businessClaims d)"
  by (simp add: updateBusinessClaimStatus_def Let_def comp_def if_distrib cong: if_cong)

text \<open>
  C7 as stated fails: after the claim is set to approved, the claimed business still has
  \<open>claimed = false\<close> and no owner, and the claim has no \<^verbatim>\<open>approvedAt\<close>.
\<close>

theorem approved_claim_leaves_business_unclaimed:
  "map c_status (businessClaims (fst (updateBusinessClaimStatus 8
       (db_directory listed [pending_claim]) 1 ''approved''))) = [Some ''approved'']
   \<and> map c_approvedAt (businessClaims (fst (updateBusinessClaimStatus 8
       (db_directory listed [pending_claim]) 1 ''approved''))) = [None]
   \<and> map b_claimed (businesses (fst (updateBusinessClaimStatus 8
       (db_directory listed [pending_claim]) 1 ''approved''))) = [Some False]
   \<and> map b_userId (businesses (fst (updateBusinessClaimStatus 8
       (db_directory listed [pending_claim]) 1 ''approved''))) = [None]"
  by (simp add: directory claim_route_defs Let_def)

subsection \<open>Session creation\<close>

text \<open>
  C8. The guard of \<^verbatim>\<open>POST /api/sessions\<close> counts the caller's businesses without looking at
  their approval and does not compare the body's \<^verbatim>\<open>businessId\<close> with them: a caller whose
  only business is unapproved creates a session, for that business and for the business
  of another owner alike.
\<close>

theorem session_created_by_owner_of_unapproved_business:
  "map fst (getBusinessesByUserId db_market ''user_1'') = [studio]
   \<and> b_approved studio = Some False
   \<and> fst (snd (post_sessions 5 db_market ''user_1'' (session_body 1))) = 201
   \<and> map s_businessId (fitnessSessions (fst (post_sessions 5 db_market ''user_1''
         (session_body 1)))) = [1, 2, 1]
   \<and> fst (snd (post_sessions 5 db_market ''user_1'' (session_body 2))) = 201
   \<and> map s_businessId (fitnessSessions (fst (post_sessions 5 db_market ''user_1''
         (session_body 2)))) = [1, 2, 2]"
  by (simp add: market session_body_def session_route_defs Let_def)

subsection \<open>Session search\<close>

















subsection \<open>Trainers\<close>

text \<open>
  C10. \<^verbatim>\<open>getPendingPersonalTrainers\<close> passes \<^verbatim>\<open>approved: false\<close>, which only switches the
  \<^verbatim>\<open>approved = true\<close> condition off: the pending list is the whole trainer table in storage
  order, whatever each trainer's approved flag is.
\<close>

theorem getPendingPersonalTrainers_returns_all:
  "map fst (getPendingPersonalTrainers d) = personalTrainers d"
  by (simp add: getPendingPersonalTrainers_def searchPersonalTrainers_def
      trainer_conditions_def comp_def)

end
